theory Spec2Isabelle
  imports Complex_Main
begin

section \<open>TradePulse: the trade executor and the valuation engine\<close>

text \<open>
  The development embeds \<^verbatim>\<open>backend/app/trading/services.py\<close> (class
  \<^verbatim>\<open>TradingService\<close>) and \<^verbatim>\<open>backend/app/portfolio/services.py\<close> (class
  \<^verbatim>\<open>PortfolioService\<close>) over the tables of \<^verbatim>\<open>backend/app/database.py\<close>.

  Python's \<^verbatim>\<open>Decimal\<close> is modelled by \<^typ>\<open>rat\<close>: sums, differences and products of
  decimals are exact in Python as long as the result has at most 28 significant digits
  (the default context), and that is the range the model covers. Python's \<^verbatim>\<open>int\<close> is
  \<^typ>\<open>int\<close>. The database is a record of its tables; a service call takes the committed
  database and returns the response together with the database after the call. A path
  that returns before \<^verbatim>\<open>db.commit()\<close> leaves the committed database as it was.

  The money columns are declared \<^verbatim>\<open>Numeric(precision, 2)\<close>. The executor computes with
  the unrounded \<^verbatim>\<open>Decimal\<close> values and hands them to the session; what the database
  holds after the commit, and what the next call reads, is the value at the scale of the
  column.
\<close>

subsection \<open>Tables (database.py) and schemas (trading/schemas.py)\<close>

datatype OrderType = BUY | SELL

record TradeRequest =
  req_symbol :: string
  req_quantity :: int
  order_type :: OrderType

record Portfolio =
  cash_balance :: rat

record Position =
  pos_portfolio_id :: nat
  pos_symbol :: string
  pos_quantity :: int
  average_cost :: rat

record Trade =
  trade_portfolio_id :: nat
  trade_symbol :: string
  trade_type :: string
  trade_quantity :: int
  trade_price :: rat
  total_amount :: rat
  trade_fees :: rat

record database =
  portfolios :: "nat \<rightharpoonup> Portfolio"
  positions :: "Position list"
  trades :: "Trade list"

text \<open>
  A \<^verbatim>\<open>TradeResponse\<close> with \<^verbatim>\<open>success=False\<close> is the left injection, tagged with the
  return statement that produced it; \<^verbatim>\<open>success=True\<close> is the right injection.
\<close>

datatype failure =
    NoPrice
  | PortfolioNotFound
  | InsufficientFunds
  | InsufficientShares
  | ExecutionFailed

text \<open>
  The successful response carries \<^verbatim>\<open>executed_quantity\<close> and the binary floating-point
  conversions \<^verbatim>\<open>float(price)\<close>, \<^verbatim>\<open>float(total_cost)\<close> and \<^verbatim>\<open>float(fees)\<close>. The three
  floats are display values that nothing reads back; the model keeps the quantity only.
\<close>

record TradeOk =
  executed_quantity :: int

type_synonym TradeResponse = "failure + TradeOk"

subsection \<open>Column types\<close>

text \<open>
  A column \<^verbatim>\<open>Numeric(precision, scale)\<close> keeps \<open>scale\<close> digits after the point: a value
  written to it is stored as the nearest multiple of \<open>1 / 10 ^ scale\<close>. A tie is rounded
  up, which on the non-negative amounts of these tables is rounding half away from zero.
  The bound \<open>precision\<close> on the number of digits is not modelled: the model covers the
  amounts that fit the column.
\<close>

definition Numeric :: "nat \<Rightarrow> nat \<Rightarrow> rat \<Rightarrow> rat" where
  "Numeric precision scale x = of_int (round (x * 10 ^ scale)) / 10 ^ scale"

subsection \<open>String and query helpers\<close>

definition upper_char :: "char \<Rightarrow> char" where
  "upper_char c =
     (let n = (of_char c :: nat) in if 97 \<le> n \<and> n \<le> 122 then char_of (n - 32) else c)"

text \<open>\<^verbatim>\<open>str.upper()\<close> on ASCII symbols.\<close>

definition upper :: "string \<Rightarrow> string" where
  "upper s = map upper_char s"

text \<open>
  \<^verbatim>\<open>Result.scalar_one_or_none()\<close>: no row gives \<^verbatim>\<open>None\<close>, one row gives the row,
  several rows raise \<^verbatim>\<open>MultipleResultsFound\<close>, which the caller's
  \<^verbatim>\<open>except Exception\<close> turns into a failed response.
\<close>

definition scalar_one_or_none :: "'a list \<Rightarrow> failure + 'a option" where
  "scalar_one_or_none rows =
     (case rows of [] \<Rightarrow> Inr None | [r] \<Rightarrow> Inr (Some r) | _ \<Rightarrow> Inl ExecutionFailed)"

text \<open>The filter \<^verbatim>\<open>Position.portfolio_id == portfolio.id and Position.symbol == symbol\<close>.\<close>

definition position_matches :: "nat \<Rightarrow> string \<Rightarrow> Position \<Rightarrow> bool" where
  "position_matches pid symb r \<longleftrightarrow> pos_portfolio_id r = pid \<and> pos_symbol r = symb"

definition select_position :: "database \<Rightarrow> nat \<Rightarrow> string \<Rightarrow> failure + Position option" where
  "select_position db pid symb =
     scalar_one_or_none (filter (position_matches pid symb) (positions db))"

subsection \<open>TradingService (trading/services.py)\<close>

text \<open>
  \<^verbatim>\<open>_execute_buy_order\<close>. The row found by the query is the only row that satisfies
  the filter, so the in-place update of that row is written as an update of the rows
  satisfying the filter. Dividing a \<^verbatim>\<open>Decimal\<close> by zero raises, and the exception ends
  the call without a commit. Python rounds the quotient of two decimals to 28 significant
  digits before the column rounds it to two places; the model rounds the exact quotient
  once. The stock cache written by \<^verbatim>\<open>_update_stock_cache\<close> is a separate table that no
  function here reads and is left out.
\<close>

definition execute_buy_order ::
  "database \<Rightarrow> nat \<Rightarrow> Portfolio \<Rightarrow> string \<Rightarrow> int \<Rightarrow> rat \<Rightarrow> rat \<Rightarrow> rat
     \<Rightarrow> TradeResponse \<times> database" where
  "execute_buy_order db pid portfolio symb qty price trade_value fee =
     (let total_cost = trade_value + fee in
      if cash_balance portfolio < total_cost then (Inl InsufficientFunds, db)
      else
        let portfolio' = portfolio\<lparr>cash_balance :=
                           Numeric 15 2 (cash_balance portfolio - total_cost)\<rparr>;
            trade = \<lparr>trade_portfolio_id = pid, trade_symbol = symb, trade_type = ''buy'',
                     trade_quantity = qty, trade_price = Numeric 10 2 price,
                     total_amount = Numeric 15 2 trade_value,
                     trade_fees = Numeric 8 2 fee\<rparr>;
            ok = \<lparr>executed_quantity = qty\<rparr>
        in case select_position db pid symb of
             Inl e \<Rightarrow> (Inl e, db)
           | Inr (Some position) \<Rightarrow>
               let total_value = average_cost position * of_int (pos_quantity position)
                                   + trade_value;
                   total_quantity = pos_quantity position + qty
               in if total_quantity = 0 then (Inl ExecutionFailed, db)
                  else (Inr ok,
                        db\<lparr>portfolios := (portfolios db)(pid \<mapsto> portfolio'),
                           positions := map (\<lambda>r. if position_matches pid symb r
                                then r\<lparr>average_cost :=
                                         Numeric 10 2 (total_value / of_int total_quantity),
                                       pos_quantity := total_quantity\<rparr>
                                else r) (positions db),
                           trades := trades db @ [trade]\<rparr>)
           | Inr None \<Rightarrow>
               (Inr ok,
                db\<lparr>portfolios := (portfolios db)(pid \<mapsto> portfolio'),
                   positions := positions db @
                     [\<lparr>pos_portfolio_id = pid, pos_symbol = symb, pos_quantity = qty,
                       average_cost = Numeric 10 2 price\<rparr>],
                   trades := trades db @ [trade]\<rparr>))"

text \<open>\<^verbatim>\<open>_execute_sell_order\<close>.\<close>

definition execute_sell_order ::
  "database \<Rightarrow> nat \<Rightarrow> Portfolio \<Rightarrow> string \<Rightarrow> int \<Rightarrow> rat \<Rightarrow> rat \<Rightarrow> rat
     \<Rightarrow> TradeResponse \<times> database" where
  "execute_sell_order db pid portfolio symb qty price trade_value fee =
     (case select_position db pid symb of
        Inl e \<Rightarrow> (Inl e, db)
      | Inr None \<Rightarrow> (Inl InsufficientShares, db)
      | Inr (Some position) \<Rightarrow>
          if pos_quantity position < qty then (Inl InsufficientShares, db)
          else
            let new_quantity = pos_quantity position - qty;
                positions' =
                  (if new_quantity = 0
                   then filter (\<lambda>r. \<not> position_matches pid symb r) (positions db)
                   else map (\<lambda>r. if position_matches pid symb r
                                  then r\<lparr>pos_quantity := new_quantity\<rparr> else r)
                          (positions db));
                net_proceeds = trade_value - fee;
                portfolio' = portfolio\<lparr>cash_balance :=
                               Numeric 15 2 (cash_balance portfolio + net_proceeds)\<rparr>;
                trade = \<lparr>trade_portfolio_id = pid, trade_symbol = symb, trade_type = ''sell'',
                         trade_quantity = qty, trade_price = Numeric 10 2 price,
                         total_amount = Numeric 15 2 trade_value,
                         trade_fees = Numeric 8 2 fee\<rparr>
            in (Inr \<lparr>executed_quantity = qty\<rparr>,
                db\<lparr>portfolios := (portfolios db)(pid \<mapsto> portfolio'),
                   positions := positions',
                   trades := trades db @ [trade]\<rparr>))"

text \<open>
  \<^verbatim>\<open>execute_trade\<close>. The price oracle \<^verbatim>\<open>StockService.get_stock_info\<close> is a parameter:
  it is asked with the symbol as the request spells it and answers with a price or with
  nothing.
\<close>

definition execute_trade ::
  "(string \<Rightarrow> rat option) \<Rightarrow> database \<Rightarrow> nat \<Rightarrow> TradeRequest \<Rightarrow> TradeResponse \<times> database" where
  "execute_trade get_stock_info db portfolio_id trade_request =
     (case get_stock_info (req_symbol trade_request) of
        None \<Rightarrow> (Inl NoPrice, db)
      | Some current_price \<Rightarrow>
          let symb = upper (req_symbol trade_request);
              qty = req_quantity trade_request
          in (case portfolios db portfolio_id of
                None \<Rightarrow> (Inl PortfolioNotFound, db)
              | Some portfolio \<Rightarrow>
                  let trade_value = current_price * of_int qty;
                      fee = trade_value * (5 / 10000)
                  in if order_type trade_request = BUY
                     then execute_buy_order db portfolio_id portfolio symb qty current_price
                            trade_value fee
                     else execute_sell_order db portfolio_id portfolio symb qty current_price
                            trade_value fee))"

subsection \<open>Sequences of orders, and the ledger reconciled\<close>




subsection \<open>PortfolioService (portfolio/services.py)\<close>

text \<open>
  The valuation returns its amounts as binary floating-point numbers: each field is
  \<^verbatim>\<open>float(d)\<close> of a \<^verbatim>\<open>Decimal\<close> \<open>d\<close>. The conversion is a parameter \<open>float\<close> of the model, so
  that a field of the result is the conversion of the exact amount. The fields
  \<^verbatim>\<open>unrealized_pnl_percent\<close> (a quotient, rounded by the decimal context) and
  \<^verbatim>\<open>last_updated\<close> (the clock) are left out.
\<close>

record 'f PositionValue =
  value_symbol :: string
  value_quantity :: int
  value_average_cost :: 'f
  current_price :: 'f
  market_value :: 'f
  cost_basis :: 'f
  unrealized_pnl :: 'f

record 'f PortfolioValue =
  value_portfolio_id :: nat
  value_cash_balance :: 'f
  stock_value :: 'f
  total_value :: 'f
  value_positions :: "'f PositionValue list"

text \<open>
  The loop of \<^verbatim>\<open>calculate_portfolio_value\<close> over the held positions, with the list
  \<^verbatim>\<open>position_values\<close> and the sum \<^verbatim>\<open>total_stock_value\<close> as accumulators. A position whose
  symbol the oracle (here \<^verbatim>\<open>stock_service.get_stock_info\<close>) does not price is passed over.
\<close>

fun position_values ::
  "(string \<Rightarrow> rat option) \<Rightarrow> (rat \<Rightarrow> 'f) \<Rightarrow> Position list
     \<Rightarrow> 'f PositionValue list \<times> rat \<Rightarrow> 'f PositionValue list \<times> rat" where
  "position_values get_stock_info float [] acc = acc"
| "position_values get_stock_info float (position # rest) (vals, total_stock_value) =
     (case get_stock_info (pos_symbol position) of
        None \<Rightarrow> position_values get_stock_info float rest (vals, total_stock_value)
      | Some price \<Rightarrow>
          let position_value = price * of_int (pos_quantity position);
              basis = average_cost position * of_int (pos_quantity position);
              pnl = position_value - basis
          in position_values get_stock_info float rest
               (vals @ [\<lparr>value_symbol = pos_symbol position,
                          value_quantity = pos_quantity position,
                          value_average_cost = float (average_cost position),
                          current_price = float price,
                          market_value = float position_value,
                          cost_basis = float basis,
                          unrealized_pnl = float pnl\<rparr>],
                total_stock_value + position_value))"

text \<open>\<^verbatim>\<open>calculate_portfolio_value\<close>; no portfolio gives \<^verbatim>\<open>None\<close>.\<close>

definition calculate_portfolio_value ::
  "(string \<Rightarrow> rat option) \<Rightarrow> (rat \<Rightarrow> 'f) \<Rightarrow> database \<Rightarrow> nat \<Rightarrow> 'f PortfolioValue option" where
  "calculate_portfolio_value get_stock_info float db portfolio_id =
     (case portfolios db portfolio_id of
        None \<Rightarrow> None
      | Some portfolio \<Rightarrow>
          let held = filter (\<lambda>r. pos_portfolio_id r = portfolio_id \<and> 0 < pos_quantity r)
                       (positions db);
              (vals, total_stock_value) = position_values get_stock_info float held ([], 0);
              total = cash_balance portfolio + total_stock_value
          in Some \<lparr>value_portfolio_id = portfolio_id,
                    value_cash_balance = float (cash_balance portfolio),
                    stock_value = float total_stock_value,
                    total_value = float total,
                    value_positions = vals\<rparr>)"









subsection \<open>Example data\<close>

text \<open>
  The scenario of the specification: a fresh portfolio with 100000 in cash, and a quote of
  150 for AAPL.
\<close>

definition example_db :: database where
  "example_db = \<lparr>portfolios = [1 \<mapsto> \<lparr>cash_balance = 100000\<rparr>], positions = [], trades = []\<rparr>"

definition example_oracle :: "string \<Rightarrow> rat option" where
  "example_oracle s = (if s = ''AAPL'' then Some 150 else None)"

definition example_buy :: TradeRequest where
  "example_buy = \<lparr>req_symbol = ''AAPL'', req_quantity = 10, order_type = BUY\<rparr>"

definition example_big_buy :: TradeRequest where
  "example_big_buy = \<lparr>req_symbol = ''AAPL'', req_quantity = 1000, order_type = BUY\<rparr>"

definition example_sell :: TradeRequest where
  "example_sell = \<lparr>req_symbol = ''AAPL'', req_quantity = 10, order_type = SELL\<rparr>"

text \<open>The same portfolio after ten shares of AAPL were bought at 150.\<close>

definition example_held :: database where
  "example_held =
     \<lparr>portfolios = [1 \<mapsto> \<lparr>cash_balance = 9849925 / 100\<rparr>],
      positions = [\<lparr>pos_portfolio_id = 1, pos_symbol = ''AAPL'', pos_quantity = 10,
                    average_cost = 150\<rparr>],
      trades = [\<lparr>trade_portfolio_id = 1, trade_symbol = ''AAPL'', trade_type = ''buy'',
                 trade_quantity = 10, trade_price = 150, total_amount = 1500,
                 trade_fees = 3 / 4\<rparr>]\<rparr>"

text \<open>A second quote, of 100 and later of 200, for a symbol \<open>X\<close>.\<close>

definition example_oracle_100 :: "string \<Rightarrow> rat option" where
  "example_oracle_100 s = (if s = ''X'' then Some 100 else None)"

definition example_oracle_200 :: "string \<Rightarrow> rat option" where
  "example_oracle_200 s = (if s = ''X'' then Some 200 else None)"

definition example_buy_X :: TradeRequest where
  "example_buy_X = \<lparr>req_symbol = ''X'', req_quantity = 10, order_type = BUY\<rparr>"

text \<open>A quote of 150.01 for AAPL, and an order for one share.\<close>

definition example_oracle_cents :: "string \<Rightarrow> rat option" where
  "example_oracle_cents s = (if s = ''AAPL'' then Some (15001 / 100) else None)"

definition example_buy_one :: TradeRequest where
  "example_buy_one = \<lparr>req_symbol = ''AAPL'', req_quantity = 1, order_type = BUY\<rparr>"

text \<open>An order for a symbol that \<open>example_oracle\<close> does not quote.\<close>

definition example_unquoted :: TradeRequest where
  "example_unquoted = \<lparr>req_symbol = ''MSFT'', req_quantity = 10, order_type = BUY\<rparr>"

text \<open>
  An oracle that answers to either spelling of the symbol with a quote of 160, and a sell
  of four shares that spells the symbol in lower case.
\<close>

definition example_oracle_lower :: "string \<Rightarrow> rat option" where
  "example_oracle_lower s = (if s = ''aapl'' \<or> s = ''AAPL'' then Some 160 else None)"

definition example_partial_sell :: TradeRequest where
  "example_partial_sell = \<lparr>req_symbol = ''aapl'', req_quantity = 4, order_type = SELL\<rparr>"

definition example_partial_sell_upper :: TradeRequest where
  "example_partial_sell_upper = \<lparr>req_symbol = ''AAPL'', req_quantity = 4, order_type = SELL\<rparr>"

text \<open>The portfolio of \<open>example_held\<close> with a second position, five shares of MSFT.\<close>

definition example_two :: database where
  "example_two = example_held\<lparr>positions := positions example_held @
      [\<lparr>pos_portfolio_id = 1, pos_symbol = ''MSFT'', pos_quantity = 5, average_cost = 300\<rparr>]\<rparr>"




text \<open>A quote of 8.004 for \<open>X\<close>, and an order for one share.\<close>

definition example_oracle_mills :: "string \<Rightarrow> rat option" where
  "example_oracle_mills s = (if s = ''X'' then Some (8004 / 1000) else None)"

definition example_buy_one_X :: TradeRequest where
  "example_buy_one_X = \<lparr>req_symbol = ''X'', req_quantity = 1, order_type = BUY\<rparr>"

section \<open>Properties\<close>

subsection \<open>Evaluation lemmas\<close>

lemma upper_AAPL: "upper ''AAPL'' = ''AAPL''"
  by code_simp

lemma upper_X: "upper ''X'' = ''X''"
  by code_simp

lemma upper_aapl: "upper ''aapl'' = ''AAPL''"
  by code_simp

lemmas example_defs =
  example_db_def example_oracle_def example_buy_def example_big_buy_def example_sell_def
  example_held_def example_oracle_100_def example_oracle_200_def example_buy_X_def
  example_oracle_cents_def example_buy_one_def example_unquoted_def
  example_oracle_lower_def example_partial_sell_def example_partial_sell_upper_def
  example_oracle_mills_def example_buy_one_X_def

lemmas execute_defs =
  execute_trade_def execute_buy_order_def execute_sell_order_def select_position_def
  scalar_one_or_none_def position_matches_def Let_def

subsection \<open>Rounding to the scale of a column\<close>

lemma Numeric_nonneg: "0 \<le> x \<Longrightarrow> 0 \<le> Numeric precision scale x"
proof -
  assume "0 \<le> x"
  then have "0 \<le> x * 10 ^ scale" by simp
  then have "round (0::rat) \<le> round (x * 10 ^ scale)" by (rule round_mono)
  then show ?thesis by (simp add: Numeric_def)
qed

lemma Numeric_of_int: "Numeric precision scale (of_int n / 10 ^ scale) = of_int n / 10 ^ scale"
  by (simp add: Numeric_def)

lemma Numeric_fixed_iff:
  "Numeric precision scale x = x \<longleftrightarrow> (\<exists>n. x = of_int n / 10 ^ scale)"
proof
  assume "Numeric precision scale x = x"
  then have "x = of_int (round (x * 10 ^ scale)) / 10 ^ scale" by (simp add: Numeric_def)
  then show "\<exists>n. x = of_int n / 10 ^ scale" ..
next
  assume "\<exists>n. x = of_int n / 10 ^ scale"
  then show "Numeric precision scale x = x" by (auto simp: Numeric_of_int)
qed

lemma Numeric_fixed_arith:
  assumes "Numeric p s x = x" and "Numeric p' s y = y"
  shows "Numeric p'' s (x - y) = x - y" and "Numeric p'' s (x + y) = x + y"
proof -
  from assms obtain m n where x: "x = of_int m / 10 ^ s" and y: "y = of_int n / 10 ^ s"
    by (auto simp: Numeric_fixed_iff)
  have "x - y = of_int (m - n) / 10 ^ s" by (simp add: x y diff_divide_distrib)
  then show "Numeric p'' s (x - y) = x - y" by (simp only: Numeric_of_int)
  have "x + y = of_int (m + n) / 10 ^ s" by (simp add: x y add_divide_distrib)
  then show "Numeric p'' s (x + y) = x + y" by (simp only: Numeric_of_int)
qed

lemma floor_rat_numeral:
  "\<lfloor>numeral a / numeral b :: rat\<rfloor> = numeral a div numeral b"
  by (metis floor_divide_of_int_eq of_int_numeral)

lemmas Numeric_eval = Numeric_def round_def floor_rat_numeral

subsection \<open>What a committed order did\<close>

lemma select_position_Some:
  "select_position db pid symb = Inr (Some r) \<longleftrightarrow>
     filter (position_matches pid symb) (positions db) = [r]"
  by (auto simp: select_position_def scalar_one_or_none_def split: list.splits)

lemma select_position_None:
  "select_position db pid symb = Inr None \<longleftrightarrow>
     filter (position_matches pid symb) (positions db) = []"
  by (auto simp: select_position_def scalar_one_or_none_def split: list.splits)

lemma select_position_row:
  assumes "select_position db pid symb = Inr (Some r)"
  shows "r \<in> set (positions db)" and "position_matches pid symb r"
proof -
  from assms have "filter (position_matches pid symb) (positions db) = [r]"
    by (simp add: select_position_Some)
  then have "r \<in> set (filter (position_matches pid symb) (positions db))" by simp
  then show "r \<in> set (positions db)" and "position_matches pid symb r" by simp_all
qed

lemma select_position_unique:
  assumes "select_position db pid symb = Inr (Some r)"
    and "x \<in> set (positions db)" and "position_matches pid symb x"
  shows "x = r"
proof -
  from assms(1) have "filter (position_matches pid symb) (positions db) = [r]"
    by (simp add: select_position_Some)
  moreover from assms(2,3) have "x \<in> set (filter (position_matches pid symb) (positions db))"
    by simp
  ultimately show ?thesis by simp
qed


lemma execute_buy_order_success:
  assumes "execute_buy_order db pid pf symb qty price tv fee = (Inr ok, db')"
  shows "\<not> cash_balance pf < tv + fee \<and>
     ok = \<lparr>executed_quantity = qty\<rparr> \<and>
     portfolios db' = (portfolios db)(pid \<mapsto> pf\<lparr>cash_balance :=
                                    Numeric 15 2 (cash_balance pf - (tv + fee))\<rparr>) \<and>
     trades db' = trades db @
           [\<lparr>trade_portfolio_id = pid, trade_symbol = symb, trade_type = ''buy'',
             trade_quantity = qty, trade_price = Numeric 10 2 price,
             total_amount = Numeric 15 2 tv, trade_fees = Numeric 8 2 fee\<rparr>] \<and>
     (\<exists>found. select_position db pid symb = Inr found \<and>
        (case found of
           None \<Rightarrow> positions db' = positions db @
              [\<lparr>pos_portfolio_id = pid, pos_symbol = symb, pos_quantity = qty,
                average_cost = Numeric 10 2 price\<rparr>]
         | Some r \<Rightarrow> pos_quantity r + qty \<noteq> 0 \<and>
              positions db' = map (\<lambda>x. if position_matches pid symb x
                 then x\<lparr>average_cost :=
                          Numeric 10 2 ((average_cost r * of_int (pos_quantity r) + tv)
                                          / of_int (pos_quantity r + qty)),
                        pos_quantity := pos_quantity r + qty\<rparr>
                 else x) (positions db)))"
proof (cases "select_position db pid symb")
  case (Inl e)
  with assms show ?thesis
    by (simp add: execute_buy_order_def Let_def split: if_splits)
next
  case (Inr found)
  show ?thesis
  proof (cases found)
    case None
    with Inr assms [symmetric] show ?thesis
      by (simp add: execute_buy_order_def Let_def split: if_splits)
  next
    case (Some r)
    with Inr assms [symmetric] show ?thesis
      by (simp add: execute_buy_order_def Let_def split: if_splits)
  qed
qed

lemma execute_sell_order_success:
  assumes "execute_sell_order db pid pf symb qty price tv fee = (Inr ok, db')"
  shows "\<exists>r. select_position db pid symb = Inr (Some r) \<and> \<not> pos_quantity r < qty \<and>
     ok = \<lparr>executed_quantity = qty\<rparr> \<and>
     portfolios db' = (portfolios db)(pid \<mapsto> pf\<lparr>cash_balance :=
                                    Numeric 15 2 (cash_balance pf + (tv - fee))\<rparr>) \<and>
     trades db' = trades db @
           [\<lparr>trade_portfolio_id = pid, trade_symbol = symb, trade_type = ''sell'',
             trade_quantity = qty, trade_price = Numeric 10 2 price,
             total_amount = Numeric 15 2 tv, trade_fees = Numeric 8 2 fee\<rparr>] \<and>
     positions db' =
       (if pos_quantity r - qty = 0
        then filter (\<lambda>x. \<not> position_matches pid symb x) (positions db)
        else map (\<lambda>x. if position_matches pid symb x
                       then x\<lparr>pos_quantity := pos_quantity r - qty\<rparr> else x)
               (positions db))"
proof (cases "select_position db pid symb")
  case (Inl e)
  with assms show ?thesis
    by (simp add: execute_sell_order_def)
next
  case (Inr found)
  show ?thesis
  proof (cases found)
    case None
    with Inr assms show ?thesis
      by (simp add: execute_sell_order_def)
  next
    case (Some r)
    with Inr assms [symmetric] show ?thesis
      by (simp add: execute_sell_order_def Let_def split: if_splits)
  qed
qed

lemma execute_trade_success:
  assumes "execute_trade get_stock_info db pid req = (Inr ok, db')"
  shows "\<exists>p pf. get_stock_info (req_symbol req) = Some p \<and> portfolios db pid = Some pf \<and>
           (if order_type req = BUY
            then execute_buy_order db pid pf (upper (req_symbol req)) (req_quantity req) p
                   (p * of_int (req_quantity req)) (p * of_int (req_quantity req) * (5 / 10000))
            else execute_sell_order db pid pf (upper (req_symbol req)) (req_quantity req) p
                   (p * of_int (req_quantity req)) (p * of_int (req_quantity req) * (5 / 10000)))
           = (Inr ok, db')"
  using assms
  by (cases "get_stock_info (req_symbol req)"; cases "portfolios db pid")
     (simp_all add: execute_trade_def Let_def split: if_splits)

lemma cash_nonneg_update:
  assumes "\<forall>i pf. m i = Some pf \<longrightarrow> 0 \<le> cash_balance pf" and "0 \<le> cash_balance pf'"
  shows "\<forall>i pf. (m(pid \<mapsto> pf')) i = Some pf \<longrightarrow> 0 \<le> cash_balance pf"
  using assms by simp

lemma net_nonneg: "0 \<le> (x::rat) \<Longrightarrow> 0 \<le> x - x * (5 / 10000)"
  by simp

lemma quantity_pos_map:
  assumes "\<forall>x \<in> set xs. 0 < pos_quantity x" and "\<And>x. 0 < pos_quantity (g x)"
  shows "\<forall>x \<in> set (map (\<lambda>x. if c x then g x else x) xs). 0 < pos_quantity x"
  using assms by (induction xs) simp_all

lemma filter_map_update:
  assumes "\<And>x. P x \<Longrightarrow> P (g x)"
  shows "filter P (map (\<lambda>x. if P x then g x else x) xs) = map g (filter P xs)"
  using assms by (induction xs) simp_all

lemma select_position_updated:
  assumes "select_position db pid symb = Inr (Some r)"
    and "positions db' = map (\<lambda>x. if position_matches pid symb x then g x else x) (positions db)"
    and "\<And>x. position_matches pid symb x \<Longrightarrow> position_matches pid symb (g x)"
  shows "select_position db' pid symb = Inr (Some (g r))"
proof -
  from assms(1) have "filter (position_matches pid symb) (positions db) = [r]"
    by (simp add: select_position_Some)
  with filter_map_update [of "position_matches pid symb" g "positions db", OF assms(3)]
  have "filter (position_matches pid symb) (positions db') = [g r]"
    unfolding assms(2) by simp
  then show ?thesis by (simp add: select_position_Some)
qed

lemma select_position_created:
  assumes "select_position db pid symb = Inr None"
    and "positions db' = positions db @ [n]" and "position_matches pid symb n"
  shows "select_position db' pid symb = Inr (Some n)"
proof -
  from assms(1) have "filter (position_matches pid symb) (positions db) = []"
    by (simp add: select_position_None)
  with assms(2,3) have "filter (position_matches pid symb) (positions db') = [n]" by simp
  then show ?thesis by (simp add: select_position_Some)
qed

lemma buy_position:
  assumes ex: "execute_trade get_stock_info db pid req = (Inr ok, db')"
    and buy: "order_type req = BUY"
    and p: "get_stock_info (req_symbol req) = Some p"
  shows "(\<forall>r. select_position db pid (upper (req_symbol req)) = Inr (Some r) \<longrightarrow>
            select_position db' pid (upper (req_symbol req)) =
              Inr (Some (r\<lparr>average_cost := Numeric 10 2
                             ((average_cost r * of_int (pos_quantity r) + p * of_int (req_quantity req))
                               / of_int (pos_quantity r + req_quantity req)),
                           pos_quantity := pos_quantity r + req_quantity req\<rparr>))) \<and>
         (select_position db pid (upper (req_symbol req)) = Inr None \<longrightarrow>
            select_position db' pid (upper (req_symbol req)) =
              Inr (Some \<lparr>pos_portfolio_id = pid, pos_symbol = upper (req_symbol req),
                         pos_quantity = req_quantity req, average_cost = Numeric 10 2 p\<rparr>))"
proof -
  let ?s = "upper (req_symbol req)" and ?q = "req_quantity req"
  from execute_trade_success [OF ex] p buy obtain pf
    where "execute_buy_order db pid pf ?s ?q p (p * of_int ?q) (p * of_int ?q * (5 / 10000))
           = (Inr ok, db')"
    by auto
  from execute_buy_order_success [OF this] obtain found
    where sel: "select_position db pid ?s = Inr found"
      and pos: "case found of
           None \<Rightarrow> positions db' = positions db @
              [\<lparr>pos_portfolio_id = pid, pos_symbol = ?s, pos_quantity = ?q, average_cost = Numeric 10 2 p\<rparr>]
         | Some r \<Rightarrow> pos_quantity r + ?q \<noteq> 0 \<and>
              positions db' = map (\<lambda>x. if position_matches pid ?s x
                 then x\<lparr>average_cost := Numeric 10 2
                          ((average_cost r * of_int (pos_quantity r) + p * of_int ?q)
                                          / of_int (pos_quantity r + ?q)),
                        pos_quantity := pos_quantity r + ?q\<rparr>
                 else x) (positions db)"
    by blast
  show ?thesis
  proof (cases found)
    case None
    with pos have "positions db' = positions db @
              [\<lparr>pos_portfolio_id = pid, pos_symbol = ?s, pos_quantity = ?q, average_cost = Numeric 10 2 p\<rparr>]"
      by simp
    from select_position_created [OF _ this] sel None show ?thesis
      by (simp add: position_matches_def)
  next
    case (Some r)
    with pos have eq: "positions db' = map (\<lambda>x. if position_matches pid ?s x
                 then x\<lparr>average_cost := Numeric 10 2
                          ((average_cost r * of_int (pos_quantity r) + p * of_int ?q)
                                          / of_int (pos_quantity r + ?q)),
                        pos_quantity := pos_quantity r + ?q\<rparr>
                 else x) (positions db)"
      by simp
    from sel Some have r: "select_position db pid ?s = Inr (Some r)" by simp
    from select_position_updated [OF r eq] r show ?thesis
      by (simp add: position_matches_def)
  qed
qed

subsection \<open>Invariants of the committed state\<close>

text \<open>
  C3. A committed trade keeps every cash balance non-negative and every position row at a
  quantity greater than zero, and a sell of exactly the held quantity deletes the position
  row. The quantity of a request is positive (the validator \<open>quantity_must_be_positive\<close> of
  \<open>TradeRequest\<close>), and the oracle quotes no negative price.
\<close>

theorem execute_trade_invariants:
  assumes ex: "execute_trade get_stock_info db pid req = (Inr ok, db')"
    and cash: "\<forall>i pf. portfolios db i = Some pf \<longrightarrow> 0 \<le> cash_balance pf"
    and qty: "\<forall>r \<in> set (positions db). 0 < pos_quantity r"
    and valid: "0 < req_quantity req"
    and price: "\<forall>p. get_stock_info (req_symbol req) = Some p \<longrightarrow> 0 \<le> p"
  shows "(\<forall>i pf. portfolios db' i = Some pf \<longrightarrow> 0 \<le> cash_balance pf) \<and>
         (\<forall>r \<in> set (positions db'). 0 < pos_quantity r) \<and>
         (order_type req = SELL \<longrightarrow>
            (\<forall>r. select_position db pid (upper (req_symbol req)) = Inr (Some r) \<and>
                 pos_quantity r = req_quantity req \<longrightarrow>
                 filter (position_matches pid (upper (req_symbol req))) (positions db') = []))"
proof -
  let ?s = "upper (req_symbol req)" and ?q = "req_quantity req"
  from execute_trade_success [OF ex] obtain p pf
    where p: "get_stock_info (req_symbol req) = Some p"
    and pf: "portfolios db pid = Some pf"
    and run: "(if order_type req = BUY
            then execute_buy_order db pid pf ?s ?q p (p * of_int ?q) (p * of_int ?q * (5 / 10000))
            else execute_sell_order db pid pf ?s ?q p (p * of_int ?q) (p * of_int ?q * (5 / 10000)))
           = (Inr ok, db')"
    by blast
  from p price have p0: "0 \<le> p" by simp
  from pf cash have c0: "0 \<le> cash_balance pf" by simp
  from p0 valid have tv0: "0 \<le> p * of_int ?q" by simp
  show ?thesis
  proof (cases "order_type req")
    case BUY
    with run have "execute_buy_order db pid pf ?s ?q p (p * of_int ?q)
        (p * of_int ?q * (5 / 10000)) = (Inr ok, db')" by simp
    from execute_buy_order_success [OF this] obtain found
      where afford: "\<not> cash_balance pf < p * of_int ?q + p * of_int ?q * (5 / 10000)"
        and pfs: "portfolios db' = (portfolios db)(pid \<mapsto>
            pf\<lparr>cash_balance := Numeric 15 2
               (cash_balance pf - (p * of_int ?q + p * of_int ?q * (5 / 10000)))\<rparr>)"
        and sel: "select_position db pid ?s = Inr found"
        and pos: "case found of
           None \<Rightarrow> positions db' = positions db @
              [\<lparr>pos_portfolio_id = pid, pos_symbol = ?s, pos_quantity = ?q, average_cost = Numeric 10 2 p\<rparr>]
         | Some r \<Rightarrow> pos_quantity r + ?q \<noteq> 0 \<and>
              positions db' = map (\<lambda>x. if position_matches pid ?s x
                 then x\<lparr>average_cost := Numeric 10 2
                          ((average_cost r * of_int (pos_quantity r) + p * of_int ?q)
                                          / of_int (pos_quantity r + ?q)),
                        pos_quantity := pos_quantity r + ?q\<rparr>
                 else x) (positions db)"
      by blast
    from afford have "0 \<le> cash_balance
        (pf\<lparr>cash_balance := Numeric 15 2
           (cash_balance pf - (p * of_int ?q + p * of_int ?q * (5 / 10000)))\<rparr>)"
      by (simp add: Numeric_nonneg)
    from cash_nonneg_update [OF cash this]
    have 1: "\<forall>i pf. portfolios db' i = Some pf \<longrightarrow> 0 \<le> cash_balance pf"
      unfolding pfs .
    have 2: "\<forall>x \<in> set (positions db'). 0 < pos_quantity x"
    proof (cases found)
      case None
      with pos have "positions db' = positions db @
              [\<lparr>pos_portfolio_id = pid, pos_symbol = ?s, pos_quantity = ?q, average_cost = Numeric 10 2 p\<rparr>]"
        by simp
      with qty valid show ?thesis by simp
    next
      case (Some r)
      with pos have eq: "positions db' = map (\<lambda>x. if position_matches pid ?s x
                 then x\<lparr>average_cost := Numeric 10 2
                          ((average_cost r * of_int (pos_quantity r) + p * of_int ?q)
                                          / of_int (pos_quantity r + ?q)),
                        pos_quantity := pos_quantity r + ?q\<rparr>
                 else x) (positions db)"
        by simp
      from sel Some have "select_position db pid ?s = Inr (Some r)" by simp
      from select_position_row(1) [OF this] qty have "0 < pos_quantity r" by simp
      with valid have "0 < pos_quantity r + ?q" by simp
      then show ?thesis unfolding eq by (intro quantity_pos_map [OF qty]) simp
    qed
    from BUY 1 2 show ?thesis by simp
  next
    case SELL
    with run have "execute_sell_order db pid pf ?s ?q p (p * of_int ?q)
        (p * of_int ?q * (5 / 10000)) = (Inr ok, db')" by simp
    from execute_sell_order_success [OF this] obtain r
      where r: "select_position db pid ?s = Inr (Some r)"
      and ge: "\<not> pos_quantity r < ?q"
      and pfs: "portfolios db' = (portfolios db)(pid \<mapsto>
            pf\<lparr>cash_balance := Numeric 15 2
               (cash_balance pf + (p * of_int ?q - p * of_int ?q * (5 / 10000)))\<rparr>)"
      and eq: "positions db' =
             (if pos_quantity r - ?q = 0
              then filter (\<lambda>x. \<not> position_matches pid ?s x) (positions db)
              else map (\<lambda>x. if position_matches pid ?s x
                             then x\<lparr>pos_quantity := pos_quantity r - ?q\<rparr> else x)
                     (positions db))"
      by blast
    from net_nonneg [OF tv0] c0
    have "0 \<le> cash_balance pf + (p * of_int ?q - p * of_int ?q * (5 / 10000))"
      by simp
    then have "0 \<le> cash_balance
        (pf\<lparr>cash_balance := Numeric 15 2
           (cash_balance pf + (p * of_int ?q - p * of_int ?q * (5 / 10000)))\<rparr>)"
      by (simp add: Numeric_nonneg)
    from cash_nonneg_update [OF cash this]
    have 1: "\<forall>i pf. portfolios db' i = Some pf \<longrightarrow> 0 \<le> cash_balance pf"
      unfolding pfs .
    have 2: "\<forall>x \<in> set (positions db'). 0 < pos_quantity x"
    proof (cases "pos_quantity r - ?q = 0")
      case True
      with eq qty show ?thesis by simp
    next
      case False
      with ge have "0 < pos_quantity r - ?q" by simp
      with False show ?thesis unfolding eq
        by (simp only: if_False) (intro quantity_pos_map [OF qty], simp)
    qed
    have 3: "\<forall>r'. select_position db pid ?s = Inr (Some r') \<and> pos_quantity r' = ?q \<longrightarrow>
                 filter (position_matches pid ?s) (positions db') = []"
    proof (intro allI impI)
      fix r' assume "select_position db pid ?s = Inr (Some r') \<and> pos_quantity r' = ?q"
      with r have "pos_quantity r - ?q = 0" by simp
      with eq have "positions db' = filter (\<lambda>x. \<not> position_matches pid ?s x) (positions db)"
        by simp
      then show "filter (position_matches pid ?s) (positions db') = []"
        by (simp add: filter_empty_conv)
    qed
    from 1 2 3 show ?thesis by simp
  qed
qed

theorem execute_trade_invariants_witness:
  "(\<exists>ok db'. execute_trade example_oracle example_db 1 example_buy = (Inr ok, db') \<and>
      (\<forall>i pf. portfolios db' i = Some pf \<longrightarrow> 0 \<le> cash_balance pf) \<and>
      (\<forall>r \<in> set (positions db'). 0 < pos_quantity r)) \<and>
   (\<exists>ok db'. execute_trade example_oracle example_held 1 example_sell = (Inr ok, db') \<and>
      (\<forall>i pf. portfolios db' i = Some pf \<longrightarrow> 0 \<le> cash_balance pf) \<and>
      filter (position_matches 1 ''AAPL'') (positions db') = [])"
proof -
  obtain ok db' where b: "execute_trade example_oracle example_db 1 example_buy = (Inr ok, db')"
    by (simp add: execute_defs example_defs upper_AAPL Numeric_eval)
  have b1: "\<forall>i pf. portfolios example_db i = Some pf \<longrightarrow> 0 \<le> cash_balance pf"
    and b2: "\<forall>r \<in> set (positions example_db). 0 < pos_quantity r"
    and b3: "0 < req_quantity example_buy"
    and b4: "\<forall>p. example_oracle (req_symbol example_buy) = Some p \<longrightarrow> 0 \<le> p"
    by (auto simp: example_defs split: if_splits)
  note B = execute_trade_invariants [OF b b1 b2 b3 b4]
  obtain ok2 db2 where s: "execute_trade example_oracle example_held 1 example_sell = (Inr ok2, db2)"
    by (simp add: execute_defs example_defs upper_AAPL Numeric_eval)
  have s1: "\<forall>i pf. portfolios example_held i = Some pf \<longrightarrow> 0 \<le> cash_balance pf"
    and s2: "\<forall>r \<in> set (positions example_held). 0 < pos_quantity r"
    and s3: "0 < req_quantity example_sell"
    and s4: "\<forall>p. example_oracle (req_symbol example_sell) = Some p \<longrightarrow> 0 \<le> p"
    by (auto simp: example_defs split: if_splits)
  note S = execute_trade_invariants [OF s s1 s2 s3 s4]
  have sel: "select_position example_held 1 (upper (req_symbol example_sell)) =
      Inr (Some \<lparr>pos_portfolio_id = 1, pos_symbol = ''AAPL'', pos_quantity = 10,
                 average_cost = 150\<rparr>)"
    by (simp add: execute_defs example_defs upper_AAPL Numeric_eval)
  have "order_type example_sell = SELL" and "req_quantity example_sell = 10"
    and "upper (req_symbol example_sell) = ''AAPL''"
    by (simp_all add: example_defs upper_AAPL)
  with S sel have "filter (position_matches 1 ''AAPL'') (positions db2) = []"
    by simp
  with B S b s show ?thesis by blast
qed

subsection \<open>Fees and conservation of cash\<close>

text \<open>
  C1. Every successfully executed order at oracle price \<open>p\<close> with quantity \<open>q\<close> computes the
  fee \<open>p * q * 0.0005\<close> and, for a buy, the balance less \<open>p * q\<close> plus the fee, for a sell the
  balance plus \<open>p * q\<close> less the fee, in exact decimal arithmetic. The commit keeps these
  amounts at the scale of their columns: the cash balance of the portfolio becomes the
  computed balance rounded to two decimal places, and the appended ledger row holds
  \<open>p * q\<close> and the fee rounded to two decimal places. When the old balance, \<open>p * q\<close> and the
  fee are whole numbers of cents, a committed buy lowers the cash balance by exactly
  \<open>p * q\<close> plus the fee and a committed sell raises it by exactly \<open>p * q\<close> minus the fee.
\<close>

theorem execute_trade_conservation:
  assumes "execute_trade get_stock_info db pid req = (Inr ok, db')"
  shows "\<exists>p pf pf' t. get_stock_info (req_symbol req) = Some p \<and> portfolios db pid = Some pf \<and>
           portfolios db' pid = Some pf' \<and> trades db' = trades db @ [t] \<and>
           total_amount t = Numeric 15 2 (p * of_int (req_quantity req)) \<and>
           trade_fees t = Numeric 8 2 (p * of_int (req_quantity req) * (5 / 10000)) \<and>
           (order_type req = BUY \<longrightarrow>
              cash_balance pf' = Numeric 15 2 (cash_balance pf -
                 (p * of_int (req_quantity req) + p * of_int (req_quantity req) * (5 / 10000)))) \<and>
           (order_type req = SELL \<longrightarrow>
              cash_balance pf' = Numeric 15 2 (cash_balance pf +
                 (p * of_int (req_quantity req) - p * of_int (req_quantity req) * (5 / 10000)))) \<and>
           (Numeric 15 2 (cash_balance pf) = cash_balance pf \<and>
            Numeric 15 2 (p * of_int (req_quantity req)) = p * of_int (req_quantity req) \<and>
            Numeric 8 2 (p * of_int (req_quantity req) * (5 / 10000))
              = p * of_int (req_quantity req) * (5 / 10000) \<longrightarrow>
              (order_type req = BUY \<longrightarrow>
                 cash_balance pf' = cash_balance pf -
                   (p * of_int (req_quantity req) + p * of_int (req_quantity req) * (5 / 10000))) \<and>
              (order_type req = SELL \<longrightarrow>
                 cash_balance pf' = cash_balance pf +
                   (p * of_int (req_quantity req) - p * of_int (req_quantity req) * (5 / 10000))))"
proof -
  let ?s = "upper (req_symbol req)" and ?q = "req_quantity req"
  from execute_trade_success [OF assms] obtain p pf
    where p: "get_stock_info (req_symbol req) = Some p"
    and pf: "portfolios db pid = Some pf"
    and run: "(if order_type req = BUY
            then execute_buy_order db pid pf ?s ?q p (p * of_int ?q) (p * of_int ?q * (5 / 10000))
            else execute_sell_order db pid pf ?s ?q p (p * of_int ?q) (p * of_int ?q * (5 / 10000)))
           = (Inr ok, db')"
    by blast
  let ?tv = "p * of_int ?q" and ?fee = "p * of_int ?q * (5 / 10000)"
  have exact: "Numeric 15 2 (cash_balance pf - (?tv + ?fee)) = cash_balance pf - (?tv + ?fee)"
    "Numeric 15 2 (cash_balance pf + (?tv - ?fee)) = cash_balance pf + (?tv - ?fee)"
    if "Numeric 15 2 (cash_balance pf) = cash_balance pf" and "Numeric 15 2 ?tv = ?tv"
      and "Numeric 8 2 ?fee = ?fee"
  proof -
    from Numeric_fixed_arith [OF that(2,3)]
    have s: "Numeric 15 2 (?tv + ?fee) = ?tv + ?fee" and d: "Numeric 15 2 (?tv - ?fee) = ?tv - ?fee"
      by blast+
    from Numeric_fixed_arith(1) [OF that(1) s]
    show "Numeric 15 2 (cash_balance pf - (?tv + ?fee)) = cash_balance pf - (?tv + ?fee)" .
    from Numeric_fixed_arith(2) [OF that(1) d]
    show "Numeric 15 2 (cash_balance pf + (?tv - ?fee)) = cash_balance pf + (?tv - ?fee)" .
  qed
  show ?thesis
  proof (cases "order_type req")
    case BUY
    with run have "execute_buy_order db pid pf ?s ?q p ?tv ?fee = (Inr ok, db')" by simp
    from execute_buy_order_success [OF this]
    have pfs: "portfolios db' = (portfolios db)(pid \<mapsto>
            pf\<lparr>cash_balance := Numeric 15 2 (cash_balance pf - (?tv + ?fee))\<rparr>)"
      and tr: "trades db' = trades db @
           [\<lparr>trade_portfolio_id = pid, trade_symbol = ?s, trade_type = ''buy'',
             trade_quantity = ?q, trade_price = Numeric 10 2 p,
             total_amount = Numeric 15 2 ?tv, trade_fees = Numeric 8 2 ?fee\<rparr>]"
      by blast+
    from pfs have "portfolios db' pid =
        Some (pf\<lparr>cash_balance := Numeric 15 2 (cash_balance pf - (?tv + ?fee))\<rparr>)" by simp
    with p pf tr BUY exact(1) show ?thesis by simp
  next
    case SELL
    with run have "execute_sell_order db pid pf ?s ?q p ?tv ?fee = (Inr ok, db')" by simp
    from execute_sell_order_success [OF this]
    have pfs: "portfolios db' = (portfolios db)(pid \<mapsto>
            pf\<lparr>cash_balance := Numeric 15 2 (cash_balance pf + (?tv - ?fee))\<rparr>)"
      and tr: "trades db' = trades db @
           [\<lparr>trade_portfolio_id = pid, trade_symbol = ?s, trade_type = ''sell'',
             trade_quantity = ?q, trade_price = Numeric 10 2 p,
             total_amount = Numeric 15 2 ?tv, trade_fees = Numeric 8 2 ?fee\<rparr>]"
      by blast+
    from pfs have "portfolios db' pid =
        Some (pf\<lparr>cash_balance := Numeric 15 2 (cash_balance pf + (?tv - ?fee))\<rparr>)" by simp
    with p pf tr SELL exact(2) show ?thesis by simp
  qed
qed

theorem execute_trade_conservation_witness:
  "(\<exists>ok db' pf' t. execute_trade example_oracle example_db 1 example_buy = (Inr ok, db') \<and>
      portfolios db' 1 = Some pf' \<and> cash_balance pf' = 100000 - (1500 + 3 / 4) \<and>
      trades db' = trades example_db @ [t] \<and> total_amount t = 1500 \<and> trade_fees t = 3 / 4) \<and>
   (\<exists>ok db' pf' t. execute_trade example_oracle example_held 1 example_sell = (Inr ok, db') \<and>
      portfolios db' 1 = Some pf' \<and> cash_balance pf' = 9849925 / 100 + (1500 - 3 / 4) \<and>
      trades db' = trades example_held @ [t] \<and> total_amount t = 1500 \<and> trade_fees t = 3 / 4)"
proof -
  obtain ok db' where b: "execute_trade example_oracle example_db 1 example_buy = (Inr ok, db')"
    by (simp add: execute_defs example_defs upper_AAPL Numeric_eval)
  from execute_trade_conservation [OF b] obtain p pf pf' t
    where "example_oracle (req_symbol example_buy) = Some p"
      and "portfolios example_db 1 = Some pf"
      and pf': "portfolios db' 1 = Some pf'"
      and t: "trades db' = trades example_db @ [t]"
      and "total_amount t = Numeric 15 2 (p * of_int (req_quantity example_buy))"
      and "trade_fees t = Numeric 8 2 (p * of_int (req_quantity example_buy) * (5 / 10000))"
      and "order_type example_buy = BUY \<longrightarrow>
             cash_balance pf' = Numeric 15 2 (cash_balance pf -
               (p * of_int (req_quantity example_buy)
                 + p * of_int (req_quantity example_buy) * (5 / 10000)))"
    by blast
  then have B: "cash_balance pf' = 100000 - (1500 + 3 / 4)" "total_amount t = 1500"
      "trade_fees t = 3 / 4"
    by (auto simp: example_defs Numeric_eval)
  obtain ok2 db2 where s: "execute_trade example_oracle example_held 1 example_sell = (Inr ok2, db2)"
    by (simp add: execute_defs example_defs upper_AAPL Numeric_eval)
  from execute_trade_conservation [OF s] obtain p2 pf2 pf2' t2
    where "example_oracle (req_symbol example_sell) = Some p2"
      and "portfolios example_held 1 = Some pf2"
      and pf2': "portfolios db2 1 = Some pf2'"
      and t2: "trades db2 = trades example_held @ [t2]"
      and "total_amount t2 = Numeric 15 2 (p2 * of_int (req_quantity example_sell))"
      and "trade_fees t2 = Numeric 8 2 (p2 * of_int (req_quantity example_sell) * (5 / 10000))"
      and "order_type example_sell = SELL \<longrightarrow>
             cash_balance pf2' = Numeric 15 2 (cash_balance pf2 +
               (p2 * of_int (req_quantity example_sell)
                 - p2 * of_int (req_quantity example_sell) * (5 / 10000)))"
    by blast
  then have S: "cash_balance pf2' = 9849925 / 100 + (1500 - 3 / 4)" "total_amount t2 = 1500"
      "trade_fees t2 = 3 / 4"
    by (auto simp: example_defs Numeric_eval)
  from b pf' t B s pf2' t2 S show ?thesis by blast
qed

theorem execute_trade_conservation_counterexample:
  "\<exists>ok db' pf' t. execute_trade example_oracle_cents example_db 1 example_buy_one = (Inr ok, db') \<and>
      portfolios db' 1 = Some pf' \<and> trades db' = [t] \<and>
      cash_balance pf' = 9984991 / 100 \<and>
      cash_balance pf' \<noteq> 100000 - (15001 / 100 * 1 + 15001 / 100 * 1 * (5 / 10000)) \<and>
      trade_fees t = 8 / 100 \<and>
      trade_fees t \<noteq> 15001 / 100 * 1 * (5 / 10000)"
  by (simp add: execute_defs example_defs upper_AAPL Numeric_eval)

subsection \<open>Rejected orders\<close>

text \<open>
  C2. Every failing order leaves the database (cash balances, positions and the trade
  ledger) unchanged. An order for a symbol the oracle does not quote fails and changes
  nothing, and so does an order for a portfolio that does not exist. Only a buy fails
  with \<open>InsufficientFunds\<close> and only a sell with \<open>InsufficientShares\<close>. With a quote and a
  portfolio at hand, a buy fails with \<open>InsufficientFunds\<close> exactly when the cash balance is
  less than gross plus fee, and a sell fails with \<open>InsufficientShares\<close> exactly when no
  position row exists for the symbol or the row's quantity is less than the requested
  quantity.
\<close>

theorem execute_trade_failures:
  "(\<forall>e. fst (execute_trade get_stock_info db pid req) = Inl e \<longrightarrow>
        snd (execute_trade get_stock_info db pid req) = db) \<and>
   (get_stock_info (req_symbol req) = None \<longrightarrow>
      execute_trade get_stock_info db pid req = (Inl NoPrice, db)) \<and>
   (\<forall>p. get_stock_info (req_symbol req) = Some p \<and> portfolios db pid = None \<longrightarrow>
      execute_trade get_stock_info db pid req = (Inl PortfolioNotFound, db)) \<and>
   (fst (execute_trade get_stock_info db pid req) = Inl InsufficientFunds \<longrightarrow>
      order_type req = BUY) \<and>
   (fst (execute_trade get_stock_info db pid req) = Inl InsufficientShares \<longrightarrow>
      order_type req = SELL) \<and>
   (\<forall>p pf. get_stock_info (req_symbol req) = Some p \<and> portfolios db pid = Some pf \<longrightarrow>
      (order_type req = BUY \<longrightarrow>
         (fst (execute_trade get_stock_info db pid req) = Inl InsufficientFunds \<longleftrightarrow>
          cash_balance pf < p * of_int (req_quantity req)
                             + p * of_int (req_quantity req) * (5 / 10000))) \<and>
      (order_type req = SELL \<longrightarrow>
         (fst (execute_trade get_stock_info db pid req) = Inl InsufficientShares \<longleftrightarrow>
          (let rows = filter (position_matches pid (upper (req_symbol req))) (positions db)
           in rows = [] \<or> (\<exists>r. rows = [r] \<and> pos_quantity r < req_quantity req)))))"
  by (cases "order_type req")
     (auto simp: execute_trade_def execute_buy_order_def execute_sell_order_def Let_def
        select_position_def scalar_one_or_none_def
      split: option.splits sum.splits if_splits list.splits)

theorem execute_trade_failures_witness:
  "execute_trade example_oracle example_db 1 example_unquoted = (Inl NoPrice, example_db) \<and>
   execute_trade example_oracle example_db 2 example_buy = (Inl PortfolioNotFound, example_db) \<and>
   fst (execute_trade example_oracle example_db 1 example_big_buy) = Inl InsufficientFunds \<and>
   snd (execute_trade example_oracle example_db 1 example_big_buy) = example_db \<and>
   fst (execute_trade example_oracle example_db 1 example_sell) = Inl InsufficientShares \<and>
   snd (execute_trade example_oracle example_db 1 example_sell) = example_db"
proof -
  have o: "example_oracle (req_symbol example_big_buy) = Some 150"
    "example_oracle (req_symbol example_sell) = Some 150"
    "example_oracle (req_symbol example_buy) = Some 150"
    "example_oracle (req_symbol example_unquoted) = None"
    and pf: "portfolios example_db 1 = Some \<lparr>cash_balance = 100000\<rparr>"
    "portfolios example_db 2 = None"
    by (simp_all add: example_defs)
  note b = execute_trade_failures [of example_oracle example_db 1 example_big_buy]
  note s = execute_trade_failures [of example_oracle example_db 1 example_sell]
  note u = execute_trade_failures [of example_oracle example_db 1 example_unquoted]
  note n = execute_trade_failures [of example_oracle example_db 2 example_buy]
  have 1: "fst (execute_trade example_oracle example_db 1 example_big_buy) = Inl InsufficientFunds"
    using b o(1) pf(1) by (simp add: example_defs)
  have 2: "fst (execute_trade example_oracle example_db 1 example_sell) = Inl InsufficientShares"
    using s o(2) pf(1) by (simp add: example_defs)
  from b 1 have 3: "snd (execute_trade example_oracle example_db 1 example_big_buy) = example_db"
    by blast
  from s 2 have 4: "snd (execute_trade example_oracle example_db 1 example_sell) = example_db"
    by blast
  from u o(4) have 5: "execute_trade example_oracle example_db 1 example_unquoted
      = (Inl NoPrice, example_db)"
    by blast
  from n o(3) pf(2) have 6: "execute_trade example_oracle example_db 2 example_buy
      = (Inl PortfolioNotFound, example_db)"
    by blast
  from 1 2 3 4 5 6 show ?thesis by simp
qed

subsection \<open>Average cost\<close>

text \<open>
  C4. A buy of quantity \<open>q\<close> at price \<open>p\<close> into an existing position sets the quantity to
  \<open>old_quantity + q\<close> and the average cost to
  \<open>(old_average_cost * old_quantity + p * q) / (old_quantity + q)\<close> rounded to the two
  decimal places of the column; the first buy of a symbol creates the position with
  average cost \<open>p\<close> rounded to two decimal places. Buying 10 at 100 and then 10 at 200
  gives average cost 150 and quantity 20.
\<close>

theorem buy_average_cost:
  "(execute_trade get_stock_info db pid req = (Inr ok, db') \<and> order_type req = BUY \<and>
    get_stock_info (req_symbol req) = Some p \<longrightarrow>
      (\<forall>r. select_position db pid (upper (req_symbol req)) = Inr (Some r) \<longrightarrow>
            select_position db' pid (upper (req_symbol req)) =
              Inr (Some (r\<lparr>average_cost := Numeric 10 2
                             ((average_cost r * of_int (pos_quantity r) + p * of_int (req_quantity req))
                               / of_int (pos_quantity r + req_quantity req)),
                           pos_quantity := pos_quantity r + req_quantity req\<rparr>))) \<and>
      (select_position db pid (upper (req_symbol req)) = Inr None \<longrightarrow>
            select_position db' pid (upper (req_symbol req)) =
              Inr (Some \<lparr>pos_portfolio_id = pid, pos_symbol = upper (req_symbol req),
                         pos_quantity = req_quantity req, average_cost = Numeric 10 2 p\<rparr>))) \<and>
   (order_type req2 = BUY \<and> req_quantity req2 = 10 \<and>
    first_quote (req_symbol req2) = Some 100 \<and> second_quote (req_symbol req2) = Some 200 \<and>
    select_position db0 pid2 (upper (req_symbol req2)) = Inr None \<and>
    execute_trade first_quote db0 pid2 req2 = (Inr ok1, db1) \<and>
    execute_trade second_quote db1 pid2 req2 = (Inr ok2, db2) \<longrightarrow>
      select_position db2 pid2 (upper (req_symbol req2)) =
        Inr (Some \<lparr>pos_portfolio_id = pid2, pos_symbol = upper (req_symbol req2),
                   pos_quantity = 20, average_cost = 150\<rparr>))"
proof (intro conjI impI)
  assume "execute_trade get_stock_info db pid req = (Inr ok, db') \<and> order_type req = BUY \<and>
    get_stock_info (req_symbol req) = Some p"
  then have a: "execute_trade get_stock_info db pid req = (Inr ok, db')"
    "order_type req = BUY" "get_stock_info (req_symbol req) = Some p"
    by simp_all
  from buy_position [OF a]
  show "\<forall>r. select_position db pid (upper (req_symbol req)) = Inr (Some r) \<longrightarrow>
            select_position db' pid (upper (req_symbol req)) =
              Inr (Some (r\<lparr>average_cost := Numeric 10 2
                             ((average_cost r * of_int (pos_quantity r) + p * of_int (req_quantity req))
                               / of_int (pos_quantity r + req_quantity req)),
                           pos_quantity := pos_quantity r + req_quantity req\<rparr>))"
    by (rule conjunct1)
  assume "select_position db pid (upper (req_symbol req)) = Inr None"
  with buy_position [OF a]
  show "select_position db' pid (upper (req_symbol req)) =
              Inr (Some \<lparr>pos_portfolio_id = pid, pos_symbol = upper (req_symbol req),
                         pos_quantity = req_quantity req, average_cost = Numeric 10 2 p\<rparr>)"
    by simp
next
  assume "order_type req2 = BUY \<and> req_quantity req2 = 10 \<and>
    first_quote (req_symbol req2) = Some 100 \<and> second_quote (req_symbol req2) = Some 200 \<and>
    select_position db0 pid2 (upper (req_symbol req2)) = Inr None \<and>
    execute_trade first_quote db0 pid2 req2 = (Inr ok1, db1) \<and>
    execute_trade second_quote db1 pid2 req2 = (Inr ok2, db2)"
  then have buy: "order_type req2 = BUY" and q: "req_quantity req2 = 10"
    and q1: "first_quote (req_symbol req2) = Some 100"
    and q2: "second_quote (req_symbol req2) = Some 200"
    and none: "select_position db0 pid2 (upper (req_symbol req2)) = Inr None"
    and e1: "execute_trade first_quote db0 pid2 req2 = (Inr ok1, db1)"
    and e2: "execute_trade second_quote db1 pid2 req2 = (Inr ok2, db2)"
    by simp_all
  from buy_position [OF e1 buy q1] none q
  have "select_position db1 pid2 (upper (req_symbol req2)) =
      Inr (Some \<lparr>pos_portfolio_id = pid2, pos_symbol = upper (req_symbol req2),
                 pos_quantity = 10, average_cost = 100\<rparr>)"
    by (simp add: Numeric_eval)
  with buy_position [OF e2 buy q2] q
  show "select_position db2 pid2 (upper (req_symbol req2)) =
        Inr (Some \<lparr>pos_portfolio_id = pid2, pos_symbol = upper (req_symbol req2),
                   pos_quantity = 20, average_cost = 150\<rparr>)"
    by (simp add: Numeric_eval)
qed

theorem buy_average_cost_witness:
  "\<exists>ok1 db1 ok2 db2.
     execute_trade example_oracle_100 example_db 1 example_buy_X = (Inr ok1, db1) \<and>
     select_position db1 1 ''X'' =
       Inr (Some \<lparr>pos_portfolio_id = 1, pos_symbol = ''X'', pos_quantity = 10,
                  average_cost = 100\<rparr>) \<and>
     execute_trade example_oracle_200 db1 1 example_buy_X = (Inr ok2, db2) \<and>
     select_position db2 1 ''X'' =
       Inr (Some \<lparr>pos_portfolio_id = 1, pos_symbol = ''X'', pos_quantity = 20,
                  average_cost = 150\<rparr>)"
proof -
  obtain ok1 db1
    where e1: "execute_trade example_oracle_100 example_db 1 example_buy_X = (Inr ok1, db1)"
    by (simp add: execute_defs example_defs upper_X Numeric_eval)
  have none: "select_position example_db 1 (upper (req_symbol example_buy_X)) = Inr None"
    by (simp add: execute_defs example_defs upper_X Numeric_eval)
  have facts: "order_type example_buy_X = BUY" "req_quantity example_buy_X = 10"
    "example_oracle_100 (req_symbol example_buy_X) = Some 100"
    "example_oracle_200 (req_symbol example_buy_X) = Some 200"
    "upper (req_symbol example_buy_X) = ''X''"
    by (simp_all add: example_defs upper_X)
  from buy_average_cost [of example_oracle_100 example_db 1 example_buy_X ok1 db1 100]
    e1 facts none
  have s1: "select_position db1 1 ''X'' =
       Inr (Some \<lparr>pos_portfolio_id = 1, pos_symbol = ''X'', pos_quantity = 10,
                  average_cost = 100\<rparr>)"
    by (simp add: Numeric_eval)
  have "portfolios db1 1 = Some \<lparr>cash_balance = 197999 / 2\<rparr>"
    using e1 by (auto simp: execute_defs example_defs upper_X Numeric_eval)
  with s1 obtain ok2 db2
    where e2: "execute_trade example_oracle_200 db1 1 example_buy_X = (Inr ok2, db2)"
    by (simp add: execute_trade_def execute_buy_order_def Let_def example_defs upper_X
        Numeric_eval)
  from buy_average_cost [of _ _ _ _ _ _ _ example_buy_X example_oracle_100 example_oracle_200
      example_db 1 ok1 db1 ok2 db2] e1 e2 facts none
  have "select_position db2 1 ''X'' =
       Inr (Some \<lparr>pos_portfolio_id = 1, pos_symbol = ''X'', pos_quantity = 20,
                  average_cost = 150\<rparr>)"
    by simp
  with e1 s1 e2 show ?thesis by blast
qed


theorem buy_average_cost_counterexample:
  "\<exists>ok db'. execute_trade example_oracle_cents example_held 1 example_buy_one = (Inr ok, db') \<and>
      select_position example_held 1 ''AAPL'' =
        Inr (Some \<lparr>pos_portfolio_id = 1, pos_symbol = ''AAPL'', pos_quantity = 10,
                   average_cost = 150\<rparr>) \<and>
      select_position db' 1 ''AAPL'' =
        Inr (Some \<lparr>pos_portfolio_id = 1, pos_symbol = ''AAPL'', pos_quantity = 11,
                   average_cost = 150\<rparr>) \<and>
      (150 * 10 + 15001 / 100 * 1) / (10 + 1) \<noteq> (150 :: rat)"
  by (simp add: execute_defs example_defs upper_AAPL Numeric_eval)

subsection \<open>Partial sells\<close>

lemma map_update_field:
  assumes "\<And>x. f (g x) = f x"
  shows "map f (map (\<lambda>x. if c x then g x else x) xs) = map f xs"
  using assms by (induction xs) simp_all

lemma partial_sell_positions:
  assumes ex: "execute_trade get_stock_info db pid req = (Inr ok, db')"
    and sell: "order_type req = SELL"
    and r: "select_position db pid (upper (req_symbol req)) = Inr (Some r)"
    and part: "req_quantity req < pos_quantity r"
  shows "positions db' = map (\<lambda>x. if position_matches pid (upper (req_symbol req)) x
                       then x\<lparr>pos_quantity := pos_quantity r - req_quantity req\<rparr> else x)
               (positions db)"
    and "\<exists>p pf. get_stock_info (req_symbol req) = Some p \<and> portfolios db pid = Some pf \<and>
           portfolios db' = (portfolios db)(pid \<mapsto> pf\<lparr>cash_balance := Numeric 15 2
             (cash_balance pf + (p * of_int (req_quantity req)
                 - p * of_int (req_quantity req) * (5 / 10000)))\<rparr>)"
proof -
  let ?s = "upper (req_symbol req)" and ?q = "req_quantity req"
  from execute_trade_success [OF ex] sell obtain p pf
    where p: "get_stock_info (req_symbol req) = Some p"
    and pf: "portfolios db pid = Some pf"
    and run: "execute_sell_order db pid pf ?s ?q p (p * of_int ?q) (p * of_int ?q * (5 / 10000))
           = (Inr ok, db')"
    by auto
  from execute_sell_order_success [OF run] r
  have pfs: "portfolios db' = (portfolios db)(pid \<mapsto> pf\<lparr>cash_balance := Numeric 15 2
             (cash_balance pf + (p * of_int ?q - p * of_int ?q * (5 / 10000)))\<rparr>)"
    and eq: "positions db' =
             (if pos_quantity r - ?q = 0
              then filter (\<lambda>x. \<not> position_matches pid ?s x) (positions db)
              else map (\<lambda>x. if position_matches pid ?s x
                             then x\<lparr>pos_quantity := pos_quantity r - ?q\<rparr> else x)
                     (positions db))"
    by auto
  from part have "pos_quantity r - ?q \<noteq> 0" by simp
  with eq show "positions db' = map (\<lambda>x. if position_matches pid ?s x
                       then x\<lparr>pos_quantity := pos_quantity r - ?q\<rparr> else x) (positions db)"
    by simp
  from p pf pfs show "\<exists>p pf. get_stock_info (req_symbol req) = Some p \<and> portfolios db pid = Some pf \<and>
           portfolios db' = (portfolios db)(pid \<mapsto> pf\<lparr>cash_balance := Numeric 15 2
             (cash_balance pf + (p * of_int ?q - p * of_int ?q * (5 / 10000)))\<rparr>)"
    by blast
qed

text \<open>
  C5. A sell of fewer shares than the position holds keeps the position row with its
  quantity lowered by the sold quantity and its average cost as it was; every other
  position row is unchanged, no row is added or removed, and no other portfolio changes.
\<close>

theorem partial_sell_frame:
  assumes ex: "execute_trade get_stock_info db pid req = (Inr ok, db')"
    and sell: "order_type req = SELL"
    and r: "select_position db pid (upper (req_symbol req)) = Inr (Some r)"
    and part: "req_quantity req < pos_quantity r"
  shows "select_position db' pid (upper (req_symbol req)) =
           Inr (Some (r\<lparr>pos_quantity := pos_quantity r - req_quantity req\<rparr>)) \<and>
         map average_cost (positions db') = map average_cost (positions db) \<and>
         map pos_symbol (positions db') = map pos_symbol (positions db) \<and>
         map pos_portfolio_id (positions db') = map pos_portfolio_id (positions db) \<and>
         (\<forall>i < length (positions db).
            \<not> position_matches pid (upper (req_symbol req)) (positions db ! i) \<longrightarrow>
            positions db' ! i = positions db ! i) \<and>
         (\<forall>i. i \<noteq> pid \<longrightarrow> portfolios db' i = portfolios db i)"
proof -
  let ?s = "upper (req_symbol req)" and ?q = "req_quantity req"
  note eq = partial_sell_positions(1) [OF ex sell r part]
  from partial_sell_positions(2) [OF ex sell r part]
  have 5: "\<forall>i. i \<noteq> pid \<longrightarrow> portfolios db' i = portfolios db i" by auto
  from select_position_updated [OF r eq]
  have 1: "select_position db' pid ?s = Inr (Some (r\<lparr>pos_quantity := pos_quantity r - ?q\<rparr>))"
    by (simp add: position_matches_def)
  have 2: "map average_cost (positions db') = map average_cost (positions db)"
    unfolding eq by (rule map_update_field) simp
  have 3: "map pos_symbol (positions db') = map pos_symbol (positions db)"
    unfolding eq by (rule map_update_field) simp
  have 4: "map pos_portfolio_id (positions db') = map pos_portfolio_id (positions db)"
    unfolding eq by (rule map_update_field) simp
  have 6: "\<forall>i < length (positions db).
            \<not> position_matches pid ?s (positions db ! i) \<longrightarrow> positions db' ! i = positions db ! i"
    unfolding eq by simp
  from 1 2 3 4 5 6 show ?thesis by simp
qed

theorem partial_sell_frame_witness:
  "\<exists>ok db'. execute_trade example_oracle_lower example_two 1 example_partial_sell = (Inr ok, db') \<and>
     positions db' =
       [\<lparr>pos_portfolio_id = 1, pos_symbol = ''AAPL'', pos_quantity = 6, average_cost = 150\<rparr>,
        \<lparr>pos_portfolio_id = 1, pos_symbol = ''MSFT'', pos_quantity = 5, average_cost = 300\<rparr>]"
proof -
  obtain ok db'
    where e: "execute_trade example_oracle_lower example_two 1 example_partial_sell = (Inr ok, db')"
    by (simp add: execute_defs example_defs example_two_def upper_aapl Numeric_eval)
  have sel: "select_position example_two 1 (upper (req_symbol example_partial_sell)) =
      Inr (Some \<lparr>pos_portfolio_id = 1, pos_symbol = ''AAPL'', pos_quantity = 10,
                 average_cost = 150\<rparr>)"
    by (simp add: execute_defs example_defs example_two_def upper_aapl)
  have facts: "order_type example_partial_sell = SELL"
    "req_quantity example_partial_sell <
       pos_quantity \<lparr>pos_portfolio_id = 1, pos_symbol = ''AAPL'', pos_quantity = 10,
                 average_cost = 150\<rparr>"
    by (simp_all add: example_defs)
  from partial_sell_frame [OF e facts(1) sel facts(2)]
  have sel': "select_position db' 1 (upper (req_symbol example_partial_sell)) =
           Inr (Some \<lparr>pos_portfolio_id = 1, pos_symbol = ''AAPL'', pos_quantity = 6,
                 average_cost = 150\<rparr>)"
    and len: "map pos_symbol (positions db') = map pos_symbol (positions example_two)"
    and other: "\<forall>i < length (positions example_two).
            \<not> position_matches 1 (upper (req_symbol example_partial_sell)) (positions example_two ! i)
            \<longrightarrow> positions db' ! i = positions example_two ! i"
    by (simp_all add: example_defs)
  from len obtain a b where ab: "positions db' = [a, b]"
    by (auto simp: example_defs example_two_def map_eq_Cons_conv)
  from other [rule_format, of 1] ab
  have b: "b = \<lparr>pos_portfolio_id = 1, pos_symbol = ''MSFT'', pos_quantity = 5,
      average_cost = 300\<rparr>"
    by (simp add: example_defs example_two_def upper_aapl position_matches_def)
  from len ab have "pos_symbol a = ''AAPL''" by (simp add: example_defs example_two_def)
  with sel' ab b have "a = \<lparr>pos_portfolio_id = 1, pos_symbol = ''AAPL'', pos_quantity = 6,
                 average_cost = 150\<rparr>"
    by (simp add: select_position_def scalar_one_or_none_def position_matches_def upper_aapl
        example_defs split: if_splits)
  with ab b e show ?thesis by blast
qed

subsection \<open>The symbol of an order\<close>

lemma map_update_changed:
  assumes "\<And>y. P y \<Longrightarrow> P (g y)"
  shows "x \<in> set (map (\<lambda>y. if P y then g y else y) xs) \<Longrightarrow> x \<notin> set xs \<Longrightarrow> P x"
    and "x \<in> set xs \<Longrightarrow> x \<notin> set (map (\<lambda>y. if P y then g y else y) xs) \<Longrightarrow> P x"
  using assms by (auto simp: image_iff split: if_splits)

lemma execute_trade_touches:
  assumes ex: "execute_trade get_stock_info db pid req = (Inr ok, db')"
  shows "\<exists>t. trades db' = trades db @ [t] \<and> trade_symbol t = upper (req_symbol req)"
    and "x \<in> set (positions db') \<Longrightarrow> x \<notin> set (positions db)
           \<Longrightarrow> position_matches pid (upper (req_symbol req)) x"
    and "x \<in> set (positions db) \<Longrightarrow> x \<notin> set (positions db')
           \<Longrightarrow> position_matches pid (upper (req_symbol req)) x"
proof -
  let ?s = "upper (req_symbol req)" and ?q = "req_quantity req"
  let ?P = "position_matches pid ?s"
  from execute_trade_success [OF ex] obtain p pf
    where run: "(if order_type req = BUY
            then execute_buy_order db pid pf ?s ?q p (p * of_int ?q) (p * of_int ?q * (5 / 10000))
            else execute_sell_order db pid pf ?s ?q p (p * of_int ?q) (p * of_int ?q * (5 / 10000)))
           = (Inr ok, db')"
    by blast
  have "(\<exists>t. trades db' = trades db @ [t] \<and> trade_symbol t = ?s) \<and>
        (positions db' = filter (\<lambda>x. \<not> ?P x) (positions db) \<or>
         (\<exists>n. ?P n \<and> positions db' = positions db @ [n]) \<or>
         (\<exists>g. (\<forall>y. ?P y \<longrightarrow> ?P (g y)) \<and>
              positions db' = map (\<lambda>y. if ?P y then g y else y) (positions db)))"
  proof (cases "order_type req")
    case BUY
    with run have "execute_buy_order db pid pf ?s ?q p (p * of_int ?q)
        (p * of_int ?q * (5 / 10000)) = (Inr ok, db')" by simp
    note S = execute_buy_order_success [OF this]
    from S have tr: "trades db' = trades db @
           [\<lparr>trade_portfolio_id = pid, trade_symbol = ?s, trade_type = ''buy'',
             trade_quantity = ?q, trade_price = Numeric 10 2 p,
             total_amount = Numeric 15 2 (p * of_int ?q),
             trade_fees = Numeric 8 2 (p * of_int ?q * (5 / 10000))\<rparr>]"
      by simp
    from S obtain found
      where sel: "select_position db pid ?s = Inr found"
        and pos: "case found of
           None \<Rightarrow> positions db' = positions db @
              [\<lparr>pos_portfolio_id = pid, pos_symbol = ?s, pos_quantity = ?q,
                average_cost = Numeric 10 2 p\<rparr>]
         | Some r \<Rightarrow> pos_quantity r + ?q \<noteq> 0 \<and>
              positions db' = map (\<lambda>x. if position_matches pid ?s x
                 then x\<lparr>average_cost := Numeric 10 2
                          ((average_cost r * of_int (pos_quantity r) + p * of_int ?q)
                                          / of_int (pos_quantity r + ?q)),
                        pos_quantity := pos_quantity r + ?q\<rparr>
                 else x) (positions db)"
      by blast
    show ?thesis
    proof (cases found)
      case None
      with pos have "\<exists>n. ?P n \<and> positions db' = positions db @ [n]"
        by (simp add: position_matches_def)
      with tr show ?thesis by simp
    next
      case (Some r)
      with pos have "\<exists>g. (\<forall>y. ?P y \<longrightarrow> ?P (g y)) \<and>
              positions db' = map (\<lambda>y. if ?P y then g y else y) (positions db)"
        by (intro exI [of _ "\<lambda>x. x\<lparr>average_cost := Numeric 10 2
                          ((average_cost r * of_int (pos_quantity r) + p * of_int ?q)
                                          / of_int (pos_quantity r + ?q)),
                        pos_quantity := pos_quantity r + ?q\<rparr>"])
           (simp add: position_matches_def)
      with tr show ?thesis by simp
    qed
  next
    case SELL
    with run have "execute_sell_order db pid pf ?s ?q p (p * of_int ?q)
        (p * of_int ?q * (5 / 10000)) = (Inr ok, db')" by simp
    note S = execute_sell_order_success [OF this]
    from S have tr: "trades db' = trades db @
           [\<lparr>trade_portfolio_id = pid, trade_symbol = ?s, trade_type = ''sell'',
             trade_quantity = ?q, trade_price = Numeric 10 2 p,
             total_amount = Numeric 15 2 (p * of_int ?q),
             trade_fees = Numeric 8 2 (p * of_int ?q * (5 / 10000))\<rparr>]"
      by auto
    from S obtain r
      where r: "select_position db pid ?s = Inr (Some r)"
      and eq: "positions db' =
             (if pos_quantity r - ?q = 0
              then filter (\<lambda>x. \<not> position_matches pid ?s x) (positions db)
              else map (\<lambda>x. if position_matches pid ?s x
                             then x\<lparr>pos_quantity := pos_quantity r - ?q\<rparr> else x)
                     (positions db))"
      by blast
    show ?thesis
    proof (cases "pos_quantity r - ?q = 0")
      case True
      with eq tr show ?thesis by simp
    next
      case False
      with eq have "\<exists>g. (\<forall>y. ?P y \<longrightarrow> ?P (g y)) \<and>
              positions db' = map (\<lambda>y. if ?P y then g y else y) (positions db)"
        by (intro exI [of _ "\<lambda>x. x\<lparr>pos_quantity := pos_quantity r - ?q\<rparr>"])
           (simp add: position_matches_def)
      with tr show ?thesis by simp
    qed
  qed
  then have tr: "\<exists>t. trades db' = trades db @ [t] \<and> trade_symbol t = ?s"
    and shape: "positions db' = filter (\<lambda>x. \<not> ?P x) (positions db) \<or>
         (\<exists>n. ?P n \<and> positions db' = positions db @ [n]) \<or>
         (\<exists>g. (\<forall>y. ?P y \<longrightarrow> ?P (g y)) \<and>
              positions db' = map (\<lambda>y. if ?P y then g y else y) (positions db))"
    by blast+
  from tr show "\<exists>t. trades db' = trades db @ [t] \<and> trade_symbol t = ?s" .
  from shape show "x \<in> set (positions db') \<Longrightarrow> x \<notin> set (positions db) \<Longrightarrow> ?P x"
    using map_update_changed(1) [of ?P _ x "positions db"] by auto
  from shape show "x \<in> set (positions db) \<Longrightarrow> x \<notin> set (positions db') \<Longrightarrow> ?P x"
    using map_update_changed(2) [of ?P _ x "positions db"] by auto
qed

text \<open>
  C10. The executor converts the symbol of the request to upper case before the position
  lookup, the creation of a position and the ledger append: the ledger row of a committed
  order carries the upper-case symbol, and every position row the order adds, changes or
  removes is a row of the portfolio with the upper-case symbol. Two orders whose symbols
  have the same upper-case form, with the same quantity and side and the same answer of
  the oracle (which is asked with the symbol as the request spells it), give the same
  response and the same database.
\<close>

theorem execute_trade_uppercase:
  "(execute_trade get_stock_info db pid req = (Inr ok, db') \<longrightarrow>
      (\<exists>t. trades db' = trades db @ [t] \<and> trade_symbol t = upper (req_symbol req)) \<and>
      (\<forall>x \<in> set (positions db'). x \<notin> set (positions db) \<longrightarrow>
          pos_portfolio_id x = pid \<and> pos_symbol x = upper (req_symbol req)) \<and>
      (\<forall>x \<in> set (positions db). x \<notin> set (positions db') \<longrightarrow>
          pos_portfolio_id x = pid \<and> pos_symbol x = upper (req_symbol req))) \<and>
   (upper (req_symbol req1) = upper (req_symbol req2) \<and>
    req_quantity req1 = req_quantity req2 \<and> order_type req1 = order_type req2 \<and>
    get_stock_info (req_symbol req1) = get_stock_info (req_symbol req2) \<longrightarrow>
      execute_trade get_stock_info db pid req1 = execute_trade get_stock_info db pid req2)"
proof (intro conjI impI ballI)
  assume ex: "execute_trade get_stock_info db pid req = (Inr ok, db')"
  from execute_trade_touches(1) [OF ex]
  show "\<exists>t. trades db' = trades db @ [t] \<and> trade_symbol t = upper (req_symbol req)" .
  { fix x assume "x \<in> set (positions db')" "x \<notin> set (positions db)"
    from execute_trade_touches(2) [OF ex this]
    show "pos_portfolio_id x = pid" and "pos_symbol x = upper (req_symbol req)"
      by (simp_all add: position_matches_def) }
  { fix x assume "x \<in> set (positions db)" "x \<notin> set (positions db')"
    from execute_trade_touches(3) [OF ex this]
    show "pos_portfolio_id x = pid" and "pos_symbol x = upper (req_symbol req)"
      by (simp_all add: position_matches_def) }
next
  assume "upper (req_symbol req1) = upper (req_symbol req2) \<and>
    req_quantity req1 = req_quantity req2 \<and> order_type req1 = order_type req2 \<and>
    get_stock_info (req_symbol req1) = get_stock_info (req_symbol req2)"
  then show "execute_trade get_stock_info db pid req1 = execute_trade get_stock_info db pid req2"
    by (simp add: execute_trade_def Let_def split: option.splits)
qed

theorem execute_trade_uppercase_witness:
  "execute_trade example_oracle_lower example_held 1 example_partial_sell =
     execute_trade example_oracle_lower example_held 1 example_partial_sell_upper \<and>
   (\<exists>ok db' t. execute_trade example_oracle_lower example_held 1 example_partial_sell = (Inr ok, db')
      \<and> trades db' = trades example_held @ [t] \<and> trade_symbol t = ''AAPL'')"
proof -
  have same: "upper (req_symbol example_partial_sell) = upper (req_symbol example_partial_sell_upper)"
    "req_quantity example_partial_sell = req_quantity example_partial_sell_upper"
    "order_type example_partial_sell = order_type example_partial_sell_upper"
    "example_oracle_lower (req_symbol example_partial_sell) =
       example_oracle_lower (req_symbol example_partial_sell_upper)"
    by (simp_all add: example_defs upper_aapl upper_AAPL)
  obtain ok db'
    where e: "execute_trade example_oracle_lower example_held 1 example_partial_sell = (Inr ok, db')"
    by (simp add: execute_defs example_defs upper_aapl Numeric_eval)
  note U = execute_trade_uppercase [of example_oracle_lower example_held 1 example_partial_sell ok db'
      example_partial_sell example_partial_sell_upper]
  from U same have 1: "execute_trade example_oracle_lower example_held 1 example_partial_sell =
     execute_trade example_oracle_lower example_held 1 example_partial_sell_upper"
    by blast
  from U e obtain t where "trades db' = trades example_held @ [t]"
    "trade_symbol t = upper (req_symbol example_partial_sell)"
    by blast
  then have "trades db' = trades example_held @ [t] \<and> trade_symbol t = ''AAPL''"
    by (simp add: example_defs upper_aapl)
  with 1 e show ?thesis by blast
qed

subsection \<open>Valuation with a symbol the oracle does not price\<close>

lemma position_values_priced:
  "position_values g f (filter (\<lambda>r. g (pos_symbol r) \<noteq> None) xs) acc = position_values g f xs acc"
  by (induction g f xs acc rule: position_values.induct) (auto simp: Let_def split: option.splits)

lemma position_values_total:
  "snd (position_values g f xs acc) =
     snd acc + sum_list (map (\<lambda>r. the (g (pos_symbol r)) * of_int (pos_quantity r))
                        (filter (\<lambda>r. g (pos_symbol r) \<noteq> None) xs))"
  by (induction g f xs acc rule: position_values.induct) (auto simp: Let_def split: option.splits)

lemma position_values_symbols:
  "map value_symbol (fst (position_values g f xs acc)) =
     map value_symbol (fst acc) @ map pos_symbol (filter (\<lambda>r. g (pos_symbol r) \<noteq> None) xs)"
  by (induction g f xs acc rule: position_values.induct) (auto simp: Let_def split: option.splits)

text \<open>
  C8. When the oracle has no price for the symbol of a held position, the valuation of an
  existing portfolio still returns a result; the position is left out of \<open>stock_value\<close>
  and out of the list of valued positions. The result carries no mark of the gap: it is the
  result the valuation returns for the same database without the unpriced positions.
\<close>

theorem calculate_portfolio_value_unpriced:
  assumes "portfolios db pid = Some pf"
  shows "\<exists>v. calculate_portfolio_value get_stock_info float db pid = Some v \<and>
     stock_value v = float (sum_list
        (map (\<lambda>r. the (get_stock_info (pos_symbol r)) * of_int (pos_quantity r))
           (filter (\<lambda>r. get_stock_info (pos_symbol r) \<noteq> None)
              (filter (\<lambda>r. pos_portfolio_id r = pid \<and> 0 < pos_quantity r) (positions db))))) \<and>
     map value_symbol (value_positions v) =
       map pos_symbol (filter (\<lambda>r. get_stock_info (pos_symbol r) \<noteq> None)
              (filter (\<lambda>r. pos_portfolio_id r = pid \<and> 0 < pos_quantity r) (positions db))) \<and>
     calculate_portfolio_value get_stock_info float
       (db\<lparr>positions := filter (\<lambda>r. get_stock_info (pos_symbol r) \<noteq> None) (positions db)\<rparr>) pid
       = Some v"
proof -
  let ?held = "filter (\<lambda>r. pos_portfolio_id r = pid \<and> 0 < pos_quantity r) (positions db)"
  let ?priced = "\<lambda>r. get_stock_info (pos_symbol r) \<noteq> None"
  obtain vals t where r: "position_values get_stock_info float ?held ([], 0) = (vals, t)"
    by (cases "position_values get_stock_info float ?held ([], 0)")
  from position_values_total [of get_stock_info float ?held "([], 0)"] r
  have t: "t = sum_list (map (\<lambda>r. the (get_stock_info (pos_symbol r)) * of_int (pos_quantity r))
                        (filter ?priced ?held))"
    by simp
  from position_values_symbols [of get_stock_info float ?held "([], 0)"] r
  have s: "map value_symbol vals = map pos_symbol (filter ?priced ?held)"
    by simp
  have "filter (\<lambda>r. pos_portfolio_id r = pid \<and> 0 < pos_quantity r) (filter ?priced (positions db))
        = filter ?priced ?held"
    by (simp add: conj_commute)
  with position_values_priced [of get_stock_info float ?held "([], 0)"] r
  have r': "position_values get_stock_info float
      (filter (\<lambda>r. pos_portfolio_id r = pid \<and> 0 < pos_quantity r) (filter ?priced (positions db)))
      ([], 0) = (vals, t)"
    by simp
  from assms r have 1: "calculate_portfolio_value get_stock_info float db pid =
      Some \<lparr>value_portfolio_id = pid, value_cash_balance = float (cash_balance pf),
            stock_value = float t, total_value = float (cash_balance pf + t),
            value_positions = vals\<rparr>"
    by (simp add: calculate_portfolio_value_def)
  from assms r' have 2: "calculate_portfolio_value get_stock_info float
       (db\<lparr>positions := filter ?priced (positions db)\<rparr>) pid =
      Some \<lparr>value_portfolio_id = pid, value_cash_balance = float (cash_balance pf),
            stock_value = float t, total_value = float (cash_balance pf + t),
            value_positions = vals\<rparr>"
    by (simp add: calculate_portfolio_value_def)
  from 1 2 t s show ?thesis by simp
qed

theorem calculate_portfolio_value_unpriced_witness:
  "\<forall>float. \<exists>v. calculate_portfolio_value example_oracle float example_two 1 = Some v \<and>
     stock_value v = float 1500 \<and> map value_symbol (value_positions v) = [''AAPL''] \<and>
     calculate_portfolio_value example_oracle float example_held 1 = Some v"
proof
  fix float :: "rat \<Rightarrow> 'f"
  have pf: "portfolios example_two 1 = Some \<lparr>cash_balance = 9849925 / 100\<rparr>"
    by (simp add: example_defs example_two_def)
  have "example_two\<lparr>positions :=
          filter (\<lambda>r. example_oracle (pos_symbol r) \<noteq> None) (positions example_two)\<rparr>
        = example_held"
    by (simp add: example_defs example_two_def)
  with calculate_portfolio_value_unpriced [OF pf, of example_oracle float]
  show "\<exists>v. calculate_portfolio_value example_oracle float example_two 1 = Some v \<and>
     stock_value v = float 1500 \<and> map value_symbol (value_positions v) = [''AAPL''] \<and>
     calculate_portfolio_value example_oracle float example_held 1 = Some v"
    by (simp add: example_defs example_two_def)
qed

theorem calculate_portfolio_value_counterexample:
  "\<forall>float. calculate_portfolio_value example_oracle float example_two 1 =
      Some \<lparr>value_portfolio_id = 1, value_cash_balance = float (9849925 / 100),
            stock_value = float 1500, total_value = float (9849925 / 100 + 1500),
            value_positions =
              [\<lparr>value_symbol = ''AAPL'', value_quantity = 10, value_average_cost = float 150,
                current_price = float 150, market_value = float 1500, cost_basis = float 1500,
                unrealized_pnl = float 0\<rparr>]\<rparr> \<and>
    calculate_portfolio_value example_oracle float example_two 1 =
      calculate_portfolio_value example_oracle float example_held 1 \<and>
    positions example_two = positions example_held @
      [\<lparr>pos_portfolio_id = 1, pos_symbol = ''MSFT'', pos_quantity = 5, average_cost = 300\<rparr>] \<and>
    example_oracle ''MSFT'' = None"
  by (simp add: calculate_portfolio_value_def example_defs example_two_def)

subsection \<open>The win rate\<close>








subsection \<open>Reconciling the cash balance with the ledger\<close>






end
